theory Spec2Isabelle
  imports Main "HOL-Library.AList"
begin

section \<open>JavaScript values\<close>

text \<open>
  The client keeps its credentials in \<^verbatim>\<open>this.state\<close>, a plain JavaScript object that is
  read from a JSON file, merged with JSON response bodies and tested with \<^verbatim>\<open>!= null\<close>,
  \<^verbatim>\<open>>\<close> and \<^verbatim>\<open>-\<close>. The values below are the JSON values plus what the code adds to
  them: \<^verbatim>\<open>undefined\<close>, \<^verbatim>\<open>NaN\<close>, \<^verbatim>\<open>Date\<close> objects (their time value, \<open>None\<close> for an
  invalid date), \<^verbatim>\<open>Error\<close> objects, promises, and functions and modules by name. Numbers are the integers
  (milliseconds and seconds); fractions and infinities are outside the model. An object
  is the list of its own enumerable properties in insertion order.
\<close>

datatype jsval =
    JUndefined
  | JNull
  | JBool bool
  | JNum int
  | JNaN
  | JStr string
  | JDate "int option"
  | JArr "jsval list"
  | JObj "(string \<times> jsval) list"
  | JErr string
  | JPromise
  | JFun string

datatype url = Url string string "(string \<times> jsval) list"

record request =
  http_method :: string
  uri :: url
  headers :: "(string \<times> string) list"
  body :: jsval

datatype error =
    TypeError string
  | ReferenceError string
  | SyntaxError
  | Error string
  | HTTPError int url jsval
  | ReadError jsval
  | Thrown jsval

text \<open>
  The library functions the code calls and this repository does not define. They are
  parameters of the model: every theorem holds for each choice of them.
  \<open>ToPrimitive\<close> is the conversion of an object that is not a \<^verbatim>\<open>Date\<close> (it runs the
  object's \<^verbatim>\<open>valueOf\<close> and \<^verbatim>\<open>toString\<close>), \<open>html_default\<close> the value of
  \<^verbatim>\<open>path.join(__dirname, '../html/index.html')\<close>.
\<close>

record jslib =
  JSON_parse :: "string \<Rightarrow> jsval option"
  JSON_stringify :: "jsval \<Rightarrow> string"
  StringToNumber :: "string \<Rightarrow> int option"
  Date_parse :: "string \<Rightarrow> int option"
  ToPrimitive :: "jsval \<Rightarrow> error + jsval"
  untildify :: "jsval \<Rightarrow> error + jsval"
  html_default :: jsval

text \<open>\<^verbatim>\<open>v == null\<close>, and its negation \<^verbatim>\<open>v != null\<close>.\<close>

fun is_nullish :: "jsval \<Rightarrow> bool" where
  "is_nullish JUndefined = True"
| "is_nullish JNull = True"
| "is_nullish _ = False"

text \<open>The truth value of \<^verbatim>\<open>v\<close> as a condition, as \<^verbatim>\<open>&&\<close> reads it.\<close>

fun truthy :: "jsval \<Rightarrow> bool" where
  "truthy JUndefined = False"
| "truthy JNull = False"
| "truthy (JBool b) = b"
| "truthy (JNum n) = (n \<noteq> 0)"
| "truthy JNaN = False"
| "truthy (JStr s) = (s \<noteq> [])"
| "truthy _ = True"

fun is_object :: "jsval \<Rightarrow> bool" where
  "is_object (JDate t) = True"
| "is_object (JArr xs) = True"
| "is_object (JObj kvs) = True"
| "is_object (JErr m) = True"
| "is_object JPromise = True"
| "is_object (JFun f) = True"
| "is_object _ = False"

text \<open>\<^verbatim>\<open>o[k]\<close> on an object held as its property list: \<^verbatim>\<open>undefined\<close> for a missing key.\<close>

definition prop_of :: "(string \<times> jsval) list \<Rightarrow> string \<Rightarrow> jsval" where
  "prop_of kvs k = (case map_of kvs k of None \<Rightarrow> JUndefined | Some v \<Rightarrow> v)"

text \<open>
  \<^verbatim>\<open>v.k\<close> for the property names the code reads (\<^verbatim>\<open>access_token\<close>, \<^verbatim>\<open>refresh_token\<close>,
  \<^verbatim>\<open>expires\<close>, \<^verbatim>\<open>expires_in\<close>, \<^verbatim>\<open>error\<close>, \<^verbatim>\<open>code\<close>): none of them is an index,
  \<^verbatim>\<open>length\<close> or a method of a prototype, so only a plain object can hold one, and
  reading it off \<^verbatim>\<open>null\<close> or \<^verbatim>\<open>undefined\<close> throws.
\<close>

fun get_prop :: "jsval \<Rightarrow> string \<Rightarrow> error + jsval" where
  "get_prop JUndefined k = Inl (TypeError (''Cannot read property '' @ k @ '' of undefined''))"
| "get_prop JNull k = Inl (TypeError (''Cannot read property '' @ k @ '' of null''))"
| "get_prop (JObj kvs) k = Inr (prop_of kvs k)"
| "get_prop _ k = Inr JUndefined"

text \<open>
  \<^verbatim>\<open>v.k = x\<close> in strict mode. The code assigns to \<^verbatim>\<open>this.state.expires\<close> only where
  the state is a plain object; assigning to a property of a primitive throws.
\<close>

fun set_prop :: "jsval \<Rightarrow> string \<Rightarrow> jsval \<Rightarrow> error + jsval" where
  "set_prop (JObj kvs) k x = Inr (JObj (AList.update k x kvs))"
| "set_prop _ k x = Inl (TypeError (''Cannot create property '' @ k))"

text \<open>\<^verbatim>\<open>delete v.k\<close>: a no-op on a value without that property.\<close>

fun delete_prop :: "jsval \<Rightarrow> string \<Rightarrow> error + jsval" where
  "delete_prop JUndefined k = Inl (TypeError (''Cannot convert undefined or null to object''))"
| "delete_prop JNull k = Inl (TypeError (''Cannot convert undefined or null to object''))"
| "delete_prop (JObj kvs) k = Inr (JObj (AList.delete k kvs))"
| "delete_prop v k = Inr v"

text \<open>Decimal digits of a natural number, for array indices and the port in a URL.\<close>

fun show_nat :: "nat \<Rightarrow> string" where
  "show_nat n =
     (if n < 10 then [''0123456789'' ! n]
      else show_nat (n div 10) @ [''0123456789'' ! (n mod 10)])"

text \<open>
  The own enumerable string-keyed properties that \<^verbatim>\<open>Object.assign\<close> copies from a
  source: the entries of a plain object, the indexed elements of an array or a string,
  and nothing for any other value, a promise included.
\<close>

fun own_props :: "jsval \<Rightarrow> (string \<times> jsval) list" where
  "own_props (JObj kvs) = kvs"
| "own_props (JArr xs) = zip (map show_nat [0..<length xs]) xs"
| "own_props (JStr s) = zip (map show_nat [0..<length s]) (map (\<lambda>c. JStr [c]) s)"
| "own_props _ = []"

text \<open>
  \<^verbatim>\<open>Object.assign(target, ...sources)\<close>: each source's properties are set in turn. A
  key already present keeps its place and a new key goes last; that JavaScript lists
  keys that are array indices first plays no part in what follows, which reads objects
  by key.
\<close>

definition assign :: "(string \<times> jsval) list \<Rightarrow> jsval list \<Rightarrow> (string \<times> jsval) list" where
  "assign target sources =
     fold (\<lambda>src t. fold (\<lambda>(k, v). AList.update k v) (own_props src) t) sources target"

subsection \<open>Numeric conversions\<close>

text \<open>\<open>ToPrimitive\<close> with hint number: a \<^verbatim>\<open>Date\<close> gives its time value.\<close>

fun to_primitive :: "jslib \<Rightarrow> jsval \<Rightarrow> error + jsval" where
  "to_primitive lib (JDate t) = Inr (case t of None \<Rightarrow> JNaN | Some n \<Rightarrow> JNum n)"
| "to_primitive lib v =
     (if is_object v then
        (case ToPrimitive lib v of
           Inl e \<Rightarrow> Inl e
         | Inr p \<Rightarrow>
             if is_object p then Inl (TypeError ''Cannot convert object to primitive value'')
             else Inr p)
      else Inr v)"

text \<open>\<open>ToNumber\<close> of a primitive; \<open>None\<close> is \<^verbatim>\<open>NaN\<close>.\<close>

fun prim_to_number :: "jslib \<Rightarrow> jsval \<Rightarrow> int option" where
  "prim_to_number lib JUndefined = None"
| "prim_to_number lib JNull = Some 0"
| "prim_to_number lib (JBool b) = Some (if b then 1 else 0)"
| "prim_to_number lib (JNum n) = Some n"
| "prim_to_number lib JNaN = None"
| "prim_to_number lib (JStr s) = StringToNumber lib s"
| "prim_to_number lib _ = None"

definition to_number :: "jslib \<Rightarrow> jsval \<Rightarrow> error + int option" where
  "to_number lib v =
     (case to_primitive lib v of Inl e \<Rightarrow> Inl e | Inr p \<Rightarrow> Inr (prim_to_number lib p))"

fun number :: "int option \<Rightarrow> jsval" where
  "number None = JNaN"
| "number (Some n) = JNum n"

text \<open>
  \<^verbatim>\<open>a > b\<close>: both operands are made primitive, left first; two strings compare by
  code units, anything else as numbers, and a comparison with \<^verbatim>\<open>NaN\<close> is false.
\<close>

definition js_gt :: "jslib \<Rightarrow> jsval \<Rightarrow> jsval \<Rightarrow> error + bool" where
  "js_gt lib a b =
     (case to_primitive lib a of
        Inl e \<Rightarrow> Inl e
      | Inr pa \<Rightarrow>
          (case to_primitive lib b of
             Inl e \<Rightarrow> Inl e
           | Inr pb \<Rightarrow>
               (case (pa, pb) of
                  (JStr sa, JStr sb) \<Rightarrow>
                    Inr (lexordp (\<lambda>c d. (of_char c :: nat) < of_char d) sb sa)
                | _ \<Rightarrow>
                    (case (prim_to_number lib pa, prim_to_number lib pb) of
                       (Some x, Some y) \<Rightarrow> Inr (y < x)
                     | _ \<Rightarrow> Inr False))))"

text \<open>\<^verbatim>\<open>a - b\<close> and \<^verbatim>\<open>a * b\<close>: both operands as numbers, \<^verbatim>\<open>NaN\<close> if either is.\<close>

definition js_arith :: "(int \<Rightarrow> int \<Rightarrow> int) \<Rightarrow> jslib \<Rightarrow> jsval \<Rightarrow> jsval \<Rightarrow> error + jsval" where
  "js_arith f lib a b =
     (case to_number lib a of
        Inl e \<Rightarrow> Inl e
      | Inr x \<Rightarrow>
          (case to_number lib b of
             Inl e \<Rightarrow> Inl e
           | Inr y \<Rightarrow>
               Inr (case (x, y) of (Some i, Some j) \<Rightarrow> JNum (f i j) | _ \<Rightarrow> JNaN)))"

definition js_minus :: "jslib \<Rightarrow> jsval \<Rightarrow> jsval \<Rightarrow> error + jsval" where
  "js_minus = js_arith (\<lambda>i j. i - j)"

definition js_times :: "jslib \<Rightarrow> jsval \<Rightarrow> jsval \<Rightarrow> error + jsval" where
  "js_times = js_arith (\<lambda>i j. i * j)"

text \<open>
  \<open>TimeClip\<close>: a \<^verbatim>\<open>Date\<close> holds at most 8.64e15 milliseconds either side of the epoch,
  and is invalid beyond.
\<close>

fun time_clip :: "int option \<Rightarrow> int option" where
  "time_clip None = None"
| "time_clip (Some t) = (if \<bar>t\<bar> \<le> 8640000000000000 then Some t else None)"

text \<open>
  \<^verbatim>\<open>new Date(v)\<close>: a \<^verbatim>\<open>Date\<close> is copied; any other value is made primitive, a string is
  parsed as a date and anything else is taken as a number of milliseconds.
\<close>

fun new_Date :: "jslib \<Rightarrow> jsval \<Rightarrow> error + jsval" where
  "new_Date lib (JDate t) = Inr (JDate t)"
| "new_Date lib v =
     (case to_primitive lib v of
        Inl e \<Rightarrow> Inl e
      | Inr (JStr s) \<Rightarrow> Inr (JDate (Date_parse lib s))
      | Inr p \<Rightarrow> Inr (JDate (time_clip (prim_to_number lib p))))"

declare show_nat.simps [simp del]

section \<open>The client and its surroundings\<close>

text \<open>
  An asynchronous method either never settles, rejects with what was thrown, or resolves.
\<close>

datatype 'a outcome = Pending | Rejected error | Resolved 'a

text \<open>What a method does to the outside: the callback server, the browser, the network.\<close>

datatype effect =
    Listen jsval
  | Open url
  | Send request
  | WriteHead nat "(string \<times> string) list"
  | End jsval
  | Destroy
  | Close
  | ConsoleError error

text \<open>A file that exists is unreadable or holds text; a path with no entry has no file.\<close>

datatype fsfile = Unreadable | Data string

text \<open>
  The instance (\<^verbatim>\<open>this.options\<close>, \<^verbatim>\<open>this.state\<close>), the file system and the effects so
  far. The source's private methods \<^verbatim>\<open>_name\<close> are \<open>p_name\<close> here.
\<close>

record world =
  options :: "(string \<times> jsval) list"
  state :: jsval
  files :: "(jsval \<times> fsfile) list"
  trace :: "effect list"

text \<open>The arguments \<^verbatim>\<open>(er, res, body)\<close> that \<^verbatim>\<open>request\<close> hands to its callback.\<close>

record reply =
  er :: jsval
  statusCode :: int
  res_body :: jsval

text \<open>A request reaching the callback server, its URL parsed by \<^verbatim>\<open>url.parse(req.url, true)\<close>.\<close>

record http_req =
  pathname :: jsval
  query :: jsval
  req_body :: string

text \<open>
  What the surroundings answer during one call: the clock at each \<^verbatim>\<open>new Date()\<close>
  (in \<^verbatim>\<open>_validToken\<close>, in \<^verbatim>\<open>_getAuth\<close>, and after a token exchange), the port the
  listener got (\<open>None\<close> when listening fails), the requests that reach the listener, the
  token endpoint's reply, and the error of \<^verbatim>\<open>writeFile\<close> if it fails.
\<close>

record env =
  now_valid :: int
  now_slop :: int
  now_token :: int
  bound :: "nat option"
  requests :: "http_req list"
  token_reply :: reply
  write_error :: "jsval option"

subsection \<open>utils.qrequest and utils.qserver\<close>

text \<open>
  \<^verbatim>\<open>qrequest\<close> resolves with the body of a reply whose status is 200 and rejects
  otherwise. The calls modelled here pass no callback.
\<close>

definition qrequest :: "request \<Rightarrow> reply \<Rightarrow> error + jsval" where
  "qrequest opts r =
     (if \<not> is_nullish (er r) then Inl (Thrown (er r))
      else if statusCode r \<noteq> 200 then Inl (HTTPError (statusCode r) (uri opts) (res_body r))
      else Inr (res_body r))"

text \<open>
  The callback server: whether it still accepts connections, the value its promise was
  resolved with, and what it wrote. A promise is resolved once: later calls of
  \<^verbatim>\<open>resolve\<close> change nothing.
\<close>

record server =
  listening :: bool
  settled :: "(jsval \<times> string) option"
  out :: "effect list"

text \<open>The \<^verbatim>\<open>finish\<close> event of the piped request body: resolve, then close the listener.\<close>

definition finish :: "http_req \<Rightarrow> server \<Rightarrow> server" where
  "finish req s =
     s\<lparr>settled := (case settled s of None \<Rightarrow> Some (query req, req_body req) | Some r \<Rightarrow> Some r),
       listening := False,
       out := out s @ [Close]\<rparr>"

text \<open>
  The request handler. The body of a request for \<^verbatim>\<open>/\<close> is piped to a buffer whose
  \<^verbatim>\<open>finish\<close> event is taken to fire before the next connection is handled.
\<close>

definition handler :: "jsval \<Rightarrow> server \<Rightarrow> http_req \<Rightarrow> server" where
  "handler text s req =
     (if pathname req = JStr ''/'' then
        finish req
          (s\<lparr>out := out s @ [WriteHead 200 [(''Content-Type'', ''text/html'')], End text, Destroy]\<rparr>)
      else s\<lparr>out := out s @ [WriteHead 404 [], End JUndefined, Destroy]\<rparr>)"

text \<open>The requests in order of arrival; a closed listener accepts no connection.\<close>

fun serve :: "jsval \<Rightarrow> server \<Rightarrow> http_req list \<Rightarrow> server" where
  "serve text s [] = s"
| "serve text s (r # rs) = (if listening s then serve text (handler text s r) rs else s)"

definition localhost :: "nat \<Rightarrow> jsval" where
  "localhost p = JStr (''http://localhost:'' @ show_nat p)"

text \<open>
  \<^verbatim>\<open>qserver(port, text, opener)\<close>: when listening fails the error handler closes the
  server and the promise stays pending; otherwise the opener gets the callback URL and
  the promise resolves with the query and body of the first request for \<^verbatim>\<open>/\<close>.
\<close>

definition qserver ::
  "jsval \<Rightarrow> jsval \<Rightarrow> (jsval \<Rightarrow> effect list) \<Rightarrow> env \<Rightarrow> (jsval \<times> string) outcome \<times> effect list" where
  "qserver port text opener env =
     (case bound env of
        None \<Rightarrow> (Pending, [Listen port, Close])
      | Some p \<Rightarrow>
          (let s = serve text
                     \<lparr>listening = True, settled = None, out = Listen port # opener (localhost p)\<rparr>
                     (requests env)
           in ((case settled s of None \<Rightarrow> Pending | Some r \<Rightarrow> Resolved r), out s)))"

subsection \<open>Files\<close>

definition readFile :: "(jsval \<times> fsfile) list \<Rightarrow> jsval \<Rightarrow> error + string" where
  "readFile fs p = (case map_of fs p of Some (Data s) \<Rightarrow> Inr s | _ \<Rightarrow> Inl (ReadError p))"

text \<open>\<^verbatim>\<open>_save\<close>: write the state as JSON, unless there is no configuration file.\<close>

definition p_save :: "jslib \<Rightarrow> env \<Rightarrow> world \<Rightarrow> unit outcome \<times> world" where
  "p_save lib env w =
     (if \<not> is_nullish (prop_of (options w) ''config_file'') then
        (case write_error env of
           Some e \<Rightarrow> (Rejected (Thrown e), w)
         | None \<Rightarrow>
             (Resolved (),
              w\<lparr>files := AList.update (prop_of (options w) ''config_file'')
                           (Data (JSON_stringify lib (state w))) (files w)\<rparr>))
      else (Resolved (), w))"

text \<open>
  \<^verbatim>\<open>_loadConfig\<close>: everything after the test of the path is inside \<^verbatim>\<open>try\<close>, and the
  handler sets the state to the empty object.
\<close>

definition loadConfig_try :: "jslib \<Rightarrow> world \<Rightarrow> error + jsval" where
  "loadConfig_try lib w =
     (case readFile (files w) (prop_of (options w) ''config_file'') of
        Inl e \<Rightarrow> Inl e
      | Inr data \<Rightarrow>
          (case JSON_parse lib data of
             None \<Rightarrow> Inl SyntaxError
           | Some st \<Rightarrow>
               (case get_prop st ''expires'' of
                  Inl e \<Rightarrow> Inl e
                | Inr x \<Rightarrow>
                    if \<not> is_nullish x then
                      (case new_Date lib x of
                         Inl e \<Rightarrow> Inl e
                       | Inr d \<Rightarrow> set_prop st ''expires'' d)
                    else Inr st)))"

definition p_loadConfig :: "jslib \<Rightarrow> world \<Rightarrow> unit outcome \<times> world" where
  "p_loadConfig lib w =
     (if is_nullish (prop_of (options w) ''config_file'') then (Resolved (), w)
      else
        (case loadConfig_try lib w of
           Inl e \<Rightarrow> (Resolved (), w\<lparr>state := JObj []\<rparr>)
         | Inr st \<Rightarrow> (Resolved (), w\<lparr>state := st\<rparr>)))"

definition p_loadHTML :: "jslib \<Rightarrow> world \<Rightarrow> unit outcome \<times> world" where
  "p_loadHTML lib w =
     (if \<not> is_nullish (prop_of (options w) ''html_file'') then
        (case readFile (files w) (prop_of (options w) ''html_file'') of
           Inl e \<Rightarrow> (Resolved (), w\<lparr>trace := trace w @ [ConsoleError e]\<rparr>)
         | Inr s \<Rightarrow>
             (Resolved (), w\<lparr>options := AList.update ''html_text'' (JStr s) (options w)\<rparr>))
      else (Resolved (), w))"

subsection \<open>Token exchange\<close>

text \<open>\<^verbatim>\<open>url.parse\<close> accepts a string only.\<close>

fun url_parse :: "jsval \<Rightarrow> error + string" where
  "url_parse (JStr s) = Inr s"
| "url_parse _ = Inl (TypeError ''The url argument must be of type string'')"

text \<open>
  The four statements that end both \<^verbatim>\<open>_getToken\<close> and \<^verbatim>\<open>_refresh\<close>: merge the body
  into the state, set \<^verbatim>\<open>expires\<close>, save, return the access token.
\<close>

definition store_token :: "jslib \<Rightarrow> env \<Rightarrow> jsval \<Rightarrow> world \<Rightarrow> jsval outcome \<times> world" where
  "store_token lib env bdy w =
     (let w1 = w\<lparr>state := JObj (assign [] [state w, bdy])\<rparr> in
      case get_prop bdy ''expires_in'' of
        Inl e \<Rightarrow> (Rejected e, w1)
      | Inr x \<Rightarrow>
          (case js_times lib x (JNum 1000) of
             Inl e \<Rightarrow> (Rejected e, w1)
           | Inr ms \<Rightarrow>
               (case new_Date lib
                       (case ms of JNum m \<Rightarrow> JNum (now_token env + m) | _ \<Rightarrow> JNaN) of
                  Inl e \<Rightarrow> (Rejected e, w1)
                | Inr d \<Rightarrow>
                    (case set_prop (state w1) ''expires'' d of
                       Inl e \<Rightarrow> (Rejected e, w1)
                     | Inr st \<Rightarrow>
                         (case p_save lib env (w1\<lparr>state := st\<rparr>) of
                            (r, w2) \<Rightarrow>
                              (case r of
                                 Pending \<Rightarrow> (Pending, w2)
                               | Rejected e \<Rightarrow> (Rejected e, w2)
                               | Resolved u \<Rightarrow>
                                   (case get_prop (state w2) ''access_token'' of
                                      Inl e \<Rightarrow> (Rejected e, w2)
                                    | Inr a \<Rightarrow> (Resolved a, w2))))))))"

definition token_request :: "world \<Rightarrow> string \<Rightarrow> jsval \<Rightarrow> jsval \<Rightarrow> request" where
  "token_request w b c redirect =
     \<lparr>http_method = ''POST'', uri = Url b ''/v3/auth/token'' [], headers = [],
      body = JObj [(''code'', c),
                   (''client_id'', prop_of (options w) ''client_id''),
                   (''client_secret'', prop_of (options w) ''client_secret''),
                   (''grant_type'', JStr ''authorization_code''),
                   (''redirect_uri'', redirect)]\<rparr>"

definition p_getToken :: "jslib \<Rightarrow> env \<Rightarrow> jsval \<Rightarrow> jsval \<Rightarrow> world \<Rightarrow> jsval outcome \<times> world" where
  "p_getToken lib env c redirect w =
     (case url_parse (prop_of (options w) ''base'') of
        Inl e \<Rightarrow> (Rejected e, w)
      | Inr b \<Rightarrow>
          (let w1 = w\<lparr>trace := trace w @ [Send (token_request w b c redirect)]\<rparr> in
           case qrequest (token_request w b c redirect) (token_reply env) of
             Inl e \<Rightarrow> (Rejected e, w1)
           | Inr bdy \<Rightarrow> store_token lib env bdy w1))"

definition refresh_request :: "world \<Rightarrow> string \<Rightarrow> jsval \<Rightarrow> string \<Rightarrow> request" where
  "refresh_request w b rt grant =
     \<lparr>http_method = ''POST'',
      uri = Url b ''/v3/auth/token''
              [(''refresh_token'', rt),
               (''client_id'', prop_of (options w) ''client_id''),
               (''client_secret'', prop_of (options w) ''client_secret''),
               (''grant_type'', JStr grant)],
      headers = [], body = JUndefined\<rparr>"

definition p_refresh :: "jslib \<Rightarrow> env \<Rightarrow> world \<Rightarrow> jsval outcome \<times> world" where
  "p_refresh lib env w =
     (case url_parse (prop_of (options w) ''base'') of
        Inl e \<Rightarrow> (Rejected e, w)
      | Inr b \<Rightarrow>
          (case get_prop (state w) ''refresh_token'' of
             Inl e \<Rightarrow> (Rejected e, w)
           | Inr rt \<Rightarrow>
               (let w1 = w\<lparr>trace := trace w @ [Send (refresh_request w b rt ''refresh_token'')]\<rparr> in
                case qrequest (refresh_request w b rt ''refresh_token'') (token_reply env) of
                  Inl e \<Rightarrow> (Rejected e, w1)
                | Inr bdy \<Rightarrow> store_token lib env bdy w1)))"

subsection \<open>Authorization\<close>

definition auth_url :: "world \<Rightarrow> string \<Rightarrow> jsval \<Rightarrow> url" where
  "auth_url w b cbURL =
     Url b ''/v3/auth/auth''
       [(''response_type'', JStr ''code''),
        (''client_id'', prop_of (options w) ''client_id''),
        (''redirect_uri'', cbURL),
        (''scope'', JStr ''https://cloud.feedly.com/subscriptions'')]"

text \<open>
  \<^verbatim>\<open>_auth\<close>: start the callback server, open the browser at the authorization URL,
  wait for the redirect, throw its \<^verbatim>\<open>error\<close> or exchange its \<^verbatim>\<open>code\<close>. The variable
  \<^verbatim>\<open>cbURL\<close> is \<^verbatim>\<open>null\<close> until the opener stores the callback URL in it.
\<close>

definition p_auth :: "jslib \<Rightarrow> env \<Rightarrow> world \<Rightarrow> jsval outcome \<times> world" where
  "p_auth lib env w =
     (case url_parse (prop_of (options w) ''base'') of
        Inl e \<Rightarrow> (Rejected e, w)
      | Inr b \<Rightarrow>
          (let cbURL = (case bound env of None \<Rightarrow> JNull | Some p \<Rightarrow> localhost p) in
           case qserver (prop_of (options w) ''port'') (prop_of (options w) ''html_text'')
                  (\<lambda>cbu. [Open (auth_url w b cbu)]) env of
             (r, fx) \<Rightarrow>
               (let w1 = w\<lparr>trace := trace w @ fx\<rparr> in
                case r of
                  Pending \<Rightarrow> (Pending, w1)
                | Rejected e \<Rightarrow> (Rejected e, w1)
                | Resolved res \<Rightarrow>
                    (case get_prop (fst res) ''error'' of
                       Inl e \<Rightarrow> (Rejected e, w1)
                     | Inr err \<Rightarrow>
                         if \<not> is_nullish err then (Rejected (Thrown err), w1)
                         else
                           (case get_prop (fst res) ''code'' of
                              Inl e \<Rightarrow> (Rejected e, w1)
                            | Inr c \<Rightarrow> p_getToken lib env c cbURL w1)))))"

subsection \<open>Choosing between the stored token, a refresh and authorization\<close>

definition p_validToken :: "jslib \<Rightarrow> int \<Rightarrow> world \<Rightarrow> error + bool" where
  "p_validToken lib now w =
     (case get_prop (state w) ''access_token'' of
        Inl e \<Rightarrow> Inl e
      | Inr a \<Rightarrow>
          if is_nullish a then Inr False
          else
            (case get_prop (state w) ''refresh_token'' of
               Inl e \<Rightarrow> Inl e
             | Inr r \<Rightarrow>
                 if is_nullish r then Inr False
                 else
                   (case get_prop (state w) ''expires'' of
                      Inl e \<Rightarrow> Inl e
                    | Inr x \<Rightarrow>
                        if is_nullish x then Inr False
                        else js_gt lib x (JDate (Some now)))))"

text \<open>The test \<^verbatim>\<open>(this.state.expires - new Date()) > this.options.slop\<close>.\<close>

definition beyond_slop :: "jslib \<Rightarrow> int \<Rightarrow> world \<Rightarrow> error + bool" where
  "beyond_slop lib now w =
     (case get_prop (state w) ''expires'' of
        Inl e \<Rightarrow> Inl e
      | Inr x \<Rightarrow>
          (case js_minus lib x (JDate (Some now)) of
             Inl e \<Rightarrow> Inl e
           | Inr d \<Rightarrow> js_gt lib d (prop_of (options w) ''slop'')))"

definition p_getAuth :: "jslib \<Rightarrow> env \<Rightarrow> world \<Rightarrow> jsval outcome \<times> world" where
  "p_getAuth lib env w =
     (case p_validToken lib (now_valid env) w of
        Inl e \<Rightarrow> (Rejected e, w)
      | Inr valid \<Rightarrow>
          if \<not> valid then p_auth lib env w
          else
            (case beyond_slop lib (now_slop env) w of
               Inl e \<Rightarrow> (Rejected e, w)
             | Inr far \<Rightarrow>
                 if far then p_refresh lib env w
                 else
                   (case get_prop (state w) ''access_token'' of
                      Inl e \<Rightarrow> (Rejected e, w)
                    | Inr a \<Rightarrow> (Resolved a, w))))"

definition refresh :: "jslib \<Rightarrow> env \<Rightarrow> world \<Rightarrow> jsval outcome \<times> world" where
  "refresh lib env w =
     (case p_validToken lib (now_valid env) w of
        Inl e \<Rightarrow> (Rejected e, w)
      | Inr valid \<Rightarrow> if valid then p_refresh lib env w else p_auth lib env w)"

subsection \<open>Logout\<close>

fun delete_props :: "jsval \<Rightarrow> string list \<Rightarrow> error + jsval" where
  "delete_props v [] = Inr v"
| "delete_props v (k # ks) =
     (case delete_prop v k of Inl e \<Rightarrow> Inl e | Inr v1 \<Rightarrow> delete_props v1 ks)"

text \<open>
  \<^verbatim>\<open>logout\<close> sends the revocation request and goes on without awaiting it:
  \<^verbatim>\<open>body\<close> is the promise that \<^verbatim>\<open>qrequest\<close> returned, not the reply.
\<close>

definition logout :: "jslib \<Rightarrow> env \<Rightarrow> world \<Rightarrow> unit outcome \<times> world" where
  "logout lib env w =
     (case url_parse (prop_of (options w) ''base'') of
        Inl e \<Rightarrow> (Rejected e, w)
      | Inr b \<Rightarrow>
          (case get_prop (state w) ''refresh_token'' of
             Inl e \<Rightarrow> (Rejected e, w)
           | Inr rt \<Rightarrow>
               (let w1 = w\<lparr>trace := trace w @ [Send (refresh_request w b rt ''revoke_token'')]\<rparr>;
                    bdy = JPromise
                in case delete_props (state w1)
                          [''access_token'', ''expires'', ''plan'', ''provider'',
                           ''refresh_token'', ''token_type''] of
                     Inl e \<Rightarrow> (Rejected e, w1)
                   | Inr st \<Rightarrow> p_save lib env (w1\<lparr>state := JObj (assign [] [st, bdy])\<rparr>))))"

subsection \<open>Construction and start-up\<close>

definition defaults :: "jslib \<Rightarrow> (string \<times> jsval) list" where
  "defaults lib =
     [(''port'', JNum 0),
      (''base'', JStr ''http://cloud.feedly.com''),
      (''config_file'', JStr ''~/.feedly''),
      (''refresh_token'', JUndefined),
      (''access_token'', JUndefined),
      (''access_token_expires'', JNum 0),
      (''html_file'', html_default lib),
      (''html_text'', JStr ''No HTML found''),
      (''slop'', JNum 3600000),
      (''client_id'', JNull),
      (''client_secret'', JNull)]"

text \<open>
  The constructor up to the assignment of \<^verbatim>\<open>this.ready\<close>, on a file system \<open>fs\<close>.
  It throws what \<^verbatim>\<open>untildify\<close> throws, and an error when an identifier is missing.
\<close>

definition constructor :: "jslib \<Rightarrow> (jsval \<times> fsfile) list \<Rightarrow> jsval \<Rightarrow> error + world" where
  "constructor lib fs opts =
     (let o1 = assign [] [JObj (defaults lib), opts] in
      case untildify lib (prop_of o1 ''config_file'') of
        Inl e \<Rightarrow> Inl e
      | Inr cf \<Rightarrow>
          (let o2 = AList.update ''config_file'' cf o1 in
           case untildify lib (prop_of o2 ''html_file'') of
             Inl e \<Rightarrow> Inl e
           | Inr hf \<Rightarrow>
               (let o3 = AList.update ''html_file'' hf o2 in
                if is_nullish (prop_of o3 ''client_id'') \<or> is_nullish (prop_of o3 ''client_secret'')
                then Inl (Error ''client_id and client_secret required'')
                else
                  Inr \<lparr>options = o3,
                       state =
                         (if truthy (prop_of o3 ''refresh_token'') \<and>
                             truthy (prop_of o3 ''access_token'') \<and>
                             truthy (prop_of o3 ''access_token_expires'')
                          then JObj [(''refresh_token'', prop_of o3 ''refresh_token''),
                                     (''access_token'', prop_of o3 ''access_token''),
                                     (''expires'', prop_of o3 ''access_token_expires'')]
                          else JObj []),
                       files = fs,
                       trace = []\<rparr>)))"

text \<open>
  \<^verbatim>\<open>this.ready = Promise.all([this._loadConfig(), this._loadHTML()])\<close>: the two loads
  touch different fields, so their order does not matter.
\<close>

definition ready :: "jslib \<Rightarrow> world \<Rightarrow> unit outcome \<times> world" where
  "ready lib w =
     (case p_loadConfig lib w of
        (r1, w1) \<Rightarrow>
          (case p_loadHTML lib w1 of
             (r2, w2) \<Rightarrow>
               ((case r1 of
                   Rejected e \<Rightarrow> Rejected e
                 | Pending \<Rightarrow> (case r2 of Rejected e \<Rightarrow> Rejected e | _ \<Rightarrow> Pending)
                 | Resolved u \<Rightarrow> r2),
                w2)))"

text \<open>\<^verbatim>\<open>new Feedly(options)\<close> once \<^verbatim>\<open>ready\<close> has settled, as every method awaits it.\<close>

definition new_Feedly :: "jslib \<Rightarrow> (jsval \<times> fsfile) list \<Rightarrow> jsval \<Rightarrow> error + world" where
  "new_Feedly lib fs opts =
     (case constructor lib fs opts of Inl e \<Rightarrow> Inl e | Inr w \<Rightarrow> Inr (snd (ready lib w)))"

subsection \<open>markEntrySaved and markEntryUnsaved\<close>

text \<open>
  An identifier is looked up in the scopes around it, innermost first, and a name that
  none of them binds is a \<^verbatim>\<open>ReferenceError\<close>. Around a method body lie its parameters,
  the bindings of the module \<^verbatim>\<open>lib/feedly.js\<close> with those of the module wrapper, and
  the global object of the host.
\<close>

fun lookup_identifier :: "(string \<times> jsval) list list \<Rightarrow> string \<Rightarrow> error + jsval" where
  "lookup_identifier [] x = Inl (ReferenceError (x @ '' is not defined''))"
| "lookup_identifier (sc # scs) x =
     (case map_of sc x of Some v \<Rightarrow> Inr v | None \<Rightarrow> lookup_identifier scs x)"

definition module_scope :: "(string \<times> jsval) list" where
  "module_scope =
     map (\<lambda>n. (n, JFun n))
       [''fs'', ''path'', ''url'', ''util'', ''readFile'', ''writeFile'', ''open'',
        ''untildify'', ''utils'', ''_normalizeTag'', ''_nodify'', ''_pickCB'',
        ''_streamOptions'', ''Feedly'',
        ''exports'', ''require'', ''module'', ''__filename'', ''__dirname'']"

text \<open>A method call on an object that is not this client: receiver, method, arguments.\<close>

datatype call = Call jsval string "jsval list"

text \<open>
  The two methods differ in the action they name. Each wraps a single id in an array
  and then calls \<^verbatim>\<open>f._request\<close>, where \<^verbatim>\<open>f\<close> is a free identifier of the method body.
\<close>

definition mark_entries ::
  "string \<Rightarrow> (string \<times> jsval) list \<Rightarrow> jsval \<Rightarrow> jsval \<Rightarrow> world \<Rightarrow> (error + call) \<times> world" where
  "mark_entries action globals ids cb w =
     (let ids1 = (case ids of JStr s \<Rightarrow> JArr [ids] | _ \<Rightarrow> ids) in
      case lookup_identifier [[(''ids'', ids1), (''cb'', cb)], module_scope, globals] ''f'' of
        Inl e \<Rightarrow> (Inl e, w)
      | Inr f \<Rightarrow>
          (Inr (Call f ''_request''
                  [cb, JStr ''/v3/markers'', JStr ''POST'',
                   JObj [(''entryIds'', ids1), (''type'', JStr ''entries''),
                         (''action'', JStr action)]]),
           w))"

definition markEntrySaved ::
  "(string \<times> jsval) list \<Rightarrow> jsval \<Rightarrow> jsval \<Rightarrow> world \<Rightarrow> (error + call) \<times> world" where
  "markEntrySaved = mark_entries ''markAsSaved''"

definition markEntryUnsaved ::
  "(string \<times> jsval) list \<Rightarrow> jsval \<Rightarrow> jsval \<Rightarrow> world \<Rightarrow> (error + call) \<times> world" where
  "markEntryUnsaved = mark_entries ''markAsUnsaved''"

subsection \<open>Reading a trace\<close>

text \<open>The network requests in a list of effects, and the requests for the callback path.\<close>

fun sends :: "effect list \<Rightarrow> request list" where
  "sends [] = []"
| "sends (Send q # fx) = q # sends fx"
| "sends (e # fx) = sends fx"

definition root :: "http_req \<Rightarrow> bool" where
  "root r = (pathname r = JStr ''/'')"

subsection \<open>A concrete instance\<close>

text \<open>
  A library, a client and answers of the surroundings on which the theorems below are
  run: the token file holds the text \<open>TOKENS\<close>, which parses to an object with an
  expiry of 1000 ms.
\<close>

definition lib0 :: jslib where
  "lib0 =
     \<lparr>JSON_parse = (\<lambda>s. if s = ''TOKENS'' then
                           Some (JObj [(''access_token'', JStr ''A''), (''expires'', JNum 1000)])
                         else None),
      JSON_stringify = (\<lambda>v. ''JSON''),
      StringToNumber = (\<lambda>s. None),
      Date_parse = (\<lambda>s. None),
      ToPrimitive = (\<lambda>v. Inr (JStr ''[object Object]'')),
      untildify = (\<lambda>v. case v of JStr s \<Rightarrow> Inr v | _ \<Rightarrow> Inl (TypeError ''Expected a string'')),
      html_default = JStr ''html/index.html''\<rparr>"

definition opts0 :: "(string \<times> jsval) list" where
  "opts0 =
     [(''port'', JNum 8080),
      (''base'', JStr ''http://cloud.feedly.com''),
      (''config_file'', JStr ''/home/u/.feedly''),
      (''html_file'', JStr ''html/index.html''),
      (''html_text'', JStr ''No HTML found''),
      (''slop'', JNum 3600000),
      (''client_id'', JStr ''id''),
      (''client_secret'', JStr ''secret'')]"

definition creds0 :: "int \<Rightarrow> (string \<times> jsval) list" where
  "creds0 t =
     [(''refresh_token'', JStr ''R''), (''access_token'', JStr ''A''),
      (''expires'', JDate (Some t)), (''id'', JStr ''user1'')]"

definition world0 :: "int \<Rightarrow> world" where
  "world0 t = \<lparr>options = opts0, state = JObj (creds0 t), files = [], trace = []\<rparr>"

definition reply_ok :: reply where
  "reply_ok =
     \<lparr>er = JNull, statusCode = 200,
      res_body = JObj [(''access_token'', JStr ''new''), (''expires_in'', JNum 3600)]\<rparr>"

definition reply_503 :: reply where
  "reply_503 = \<lparr>er = JNull, statusCode = 503, res_body = JStr ''unavailable''\<rparr>"

definition reply_failed :: reply where
  "reply_failed = \<lparr>er = JErr ''ECONNREFUSED'', statusCode = 0, res_body = JUndefined\<rparr>"

definition stray :: http_req where
  "stray = \<lparr>pathname = JStr ''/favicon.ico'', query = JObj [], req_body = []\<rparr>"

definition redirect_ok :: http_req where
  "redirect_ok = \<lparr>pathname = JStr ''/'', query = JObj [(''code'', JStr ''abc123'')], req_body = []\<rparr>"

definition redirect_denied :: http_req where
  "redirect_denied =
     \<lparr>pathname = JStr ''/'', query = JObj [(''error'', JStr ''access_denied'')], req_body = []\<rparr>"

definition env0 :: "int \<Rightarrow> http_req list \<Rightarrow> reply \<Rightarrow> env" where
  "env0 t rs r =
     \<lparr>now_valid = t, now_slop = t, now_token = t, bound = Some 8080, requests = rs,
      token_reply = r, write_error = None\<rparr>"

definition world_null :: "int \<Rightarrow> world" where
  "world_null t =
     \<lparr>options = AList.update ''config_file'' JNull opts0, state = JObj (creds0 t),
      files = [], trace = []\<rparr>"

definition fs0 :: "(jsval \<times> fsfile) list" where
  "fs0 = [(JStr ''/home/u/.feedly'', Data ''TOKENS'')]"

definition tokens0 :: "(string \<times> jsval) list" where
  "tokens0 =
     [(''client_id'', JStr ''id''), (''client_secret'', JStr ''secret''),
      (''access_token'', JStr ''A''), (''refresh_token'', JStr ''R''),
      (''access_token_expires'', JNum 9000000)]"

definition reply_revoked :: reply where
  "reply_revoked = \<lparr>er = JNull, statusCode = 200, res_body = JObj [(''revoked'', JBool True)]\<rparr>"

definition globals0 :: "(string \<times> jsval) list" where
  "globals0 =
     map (\<lambda>n. (n, JFun n))
       [''global'', ''process'', ''console'', ''Buffer'', ''setTimeout'', ''clearTimeout'',
        ''setInterval'', ''clearInterval'', ''setImmediate'', ''clearImmediate'']"

section \<open>Facts about the model\<close>

subsection \<open>The callback server\<close>

lemma sends_append [simp]: "sends (xs @ ys) = sends xs @ sends ys"
  by (induction xs rule: sends.induct) auto

lemma serve_not_listening [simp]: "\<not> listening s \<Longrightarrow> serve text s rs = s"
  by (cases rs) auto

lemma handler_out: "\<exists>fx. out (handler text s r) = out s @ fx \<and> sends fx = []"
  by (auto simp: handler_def finish_def)

lemma serve_out: "\<exists>fx. out (serve text s rs) = out s @ fx \<and> sends fx = []"
proof (induction rs arbitrary: s)
  case Nil
  show ?case by simp
next
  case (Cons r rs)
  show ?case
  proof (cases "listening s")
    case False
    then show ?thesis by simp
  next
    case True
    obtain f1 where f1: "out (handler text s r) = out s @ f1" "sends f1 = []"
      using handler_out by blast
    obtain f2 where f2: "out (serve text (handler text s r) rs) = out (handler text s r) @ f2"
      "sends f2 = []"
      using Cons.IH by blast
    show ?thesis using True f1 f2 by auto
  qed
qed

lemma serve_settled:
  "listening s \<Longrightarrow> settled s = None \<Longrightarrow>
   settled (serve text s rs) = map_option (\<lambda>r. (query r, req_body r)) (find root rs)"
proof (induction rs arbitrary: s)
  case Nil
  then show ?case by simp
next
  case (Cons r rs)
  show ?case
  proof (cases "root r")
    case True
    then show ?thesis using Cons.prems by (simp add: handler_def finish_def root_def)
  next
    case False
    have "settled (serve text (handler text s r) rs) =
       map_option (\<lambda>r. (query r, req_body r)) (find root rs)"
      by (rule Cons.IH) (use False Cons.prems in \<open>simp_all add: handler_def root_def\<close>)
    then show ?thesis using False Cons.prems by simp
  qed
qed

lemma settled_handler: "settled s = Some v \<Longrightarrow> settled (handler text s r) = Some v"
  by (simp add: handler_def finish_def)

lemma serve_listening:
  "listening s \<Longrightarrow> listening (serve text s rs) = (find root rs = None)"
proof (induction rs arbitrary: s)
  case Nil
  then show ?case by simp
next
  case (Cons r rs)
  show ?case
  proof (cases "root r")
    case True
    then show ?thesis using Cons.prems by (simp add: handler_def finish_def root_def)
  next
    case False
    have "listening (serve text (handler text s r) rs) = (find root rs = None)"
      by (rule Cons.IH) (use False Cons.prems in \<open>simp add: handler_def root_def\<close>)
    then show ?thesis using False Cons.prems by simp
  qed
qed

subsection \<open>Token exchange and authorization\<close>

lemma p_save_frame:
  "p_save lib env w = (r, w2) \<Longrightarrow>
   trace w2 = trace w \<and> options w2 = options w \<and> state w2 = state w"
  by (auto simp: p_save_def split: option.splits if_splits)

lemma store_token_frame:
  "trace (snd (store_token lib env bdy w)) = trace w \<and>
   options (snd (store_token lib env bdy w)) = options w"
  by (auto simp: store_token_def Let_def dest!: p_save_frame
           split: sum.splits prod.splits outcome.splits)

lemma token_request_trace [simp]: "token_request (w\<lparr>trace := t\<rparr>) = token_request w"
  by (simp add: token_request_def fun_eq_iff)

lemma p_getToken_trace:
  "prop_of (options w) ''base'' = JStr b \<Longrightarrow>
   trace (snd (p_getToken lib env c r w)) = trace w @ [Send (token_request w b c r)]"
  by (simp add: p_getToken_def Let_def store_token_frame split: sum.splits)

lemma qserver_resolved:
  assumes "bound env = Some p" "find root (requests env) = Some rq"
  shows "\<exists>fx. qserver port text opener env =
           (Resolved (query rq, req_body rq), Listen port # opener (localhost p) @ fx) \<and>
           sends fx = []"
proof -
  let ?s0 = "\<lparr>listening = True, settled = None, out = Listen port # opener (localhost p)\<rparr>"
  obtain fx where fx: "out (serve text ?s0 (requests env)) = out ?s0 @ fx" "sends fx = []"
    using serve_out by blast
  have "settled (serve text ?s0 (requests env)) = Some (query rq, req_body rq)"
    using serve_settled[of ?s0 "text" "requests env"] assms by simp
  then show ?thesis using fx assms by (simp add: qserver_def Let_def)
qed

lemma qserver_sends:
  assumes "\<And>u. sends (opener u) = []"
  shows "sends (snd (qserver port text opener env)) = []"
proof (cases "bound env")
  case None
  then show ?thesis by (simp add: qserver_def)
next
  case (Some p)
  let ?s0 = "\<lparr>listening = True, settled = None, out = Listen port # opener (localhost p)\<rparr>"
  obtain fx where fx: "out (serve text ?s0 (requests env)) = out ?s0 @ fx" "sends fx = []"
    using serve_out by blast
  then show ?thesis using Some assms by (simp add: qserver_def Let_def)
qed

lemma p_getToken_sends:
  "sends (trace (snd (p_getToken lib env c r w))) = sends (trace w) \<or>
   (\<exists>b. sends (trace (snd (p_getToken lib env c r w))) = sends (trace w) @ [token_request w b c r])"
  by (auto simp: p_getToken_def Let_def store_token_frame split: sum.splits)

lemma p_auth_sends:
  "sends (trace (snd (p_auth lib env w))) = sends (trace w) \<or>
   (\<exists>b c r. sends (trace (snd (p_auth lib env w))) = sends (trace w) @ [token_request w b c r])"
proof (cases "url_parse (prop_of (options w) ''base'')")
  case (Inl e)
  then show ?thesis by (simp add: p_auth_def)
next
  case (Inr b)
  obtain r fx where q: "qserver (prop_of (options w) ''port'') (prop_of (options w) ''html_text'')
                  (\<lambda>cbu. [Open (auth_url w b cbu)]) env = (r, fx)"
    by (cases "qserver (prop_of (options w) ''port'') (prop_of (options w) ''html_text'')
                  (\<lambda>cbu. [Open (auth_url w b cbu)]) env")
  have fx: "sends fx = []"
    using qserver_sends[of "\<lambda>cbu. [Open (auth_url w b cbu)]" "prop_of (options w) ''port''"
        "prop_of (options w) ''html_text''" env] q by simp
  have t: "sends (trace (snd (p_getToken lib env c u (w\<lparr>trace := trace w @ fx\<rparr>)))) = sends (trace w) \<or>
   (\<exists>b. sends (trace (snd (p_getToken lib env c u (w\<lparr>trace := trace w @ fx\<rparr>)))) =
      sends (trace w) @ [token_request w b c u])" for c u
    using p_getToken_sends[of lib env c u "w\<lparr>trace := trace w @ fx\<rparr>"] fx by simp
  let ?u = "case bound env of None \<Rightarrow> JNull | Some p \<Rightarrow> localhost p"
  let ?w1 = "w\<lparr>trace := trace w @ fx\<rparr>"
  have "snd (p_auth lib env w) = ?w1 \<or> (\<exists>c. snd (p_auth lib env w) = snd (p_getToken lib env c ?u ?w1))"
    using Inr q by (auto simp: p_auth_def Let_def split: outcome.splits sum.splits)
  then show ?thesis
  proof
    assume "snd (p_auth lib env w) = ?w1"
    then show ?thesis using fx by simp
  next
    assume "\<exists>c. snd (p_auth lib env w) = snd (p_getToken lib env c ?u ?w1)"
    then obtain c where c: "snd (p_auth lib env w) = snd (p_getToken lib env c ?u ?w1)"
      by blast
    show ?thesis
      using t[of c ?u] c by metis
  qed
qed

lemma not_valid:
  assumes "state w = JObj kvs"
    and "is_nullish (prop_of kvs ''access_token'') \<or> is_nullish (prop_of kvs ''refresh_token'')
       \<or> is_nullish (prop_of kvs ''expires'')
       \<or> (\<exists>e. to_number lib (prop_of kvs ''expires'') = Inr (Some e) \<and> e \<le> now)"
  shows "p_validToken lib now w = Inr False"
  using assms
  by (auto simp: p_validToken_def js_gt_def to_number_def
           split: sum.splits jsval.splits option.splits)

lemmas example_defs = lib0_def opts0_def creds0_def world0_def reply_ok_def reply_503_def
  reply_failed_def stray_def redirect_ok_def redirect_denied_def env0_def

lemmas run_defs = p_getAuth_def p_validToken_def beyond_slop_def p_auth_def p_refresh_def
  p_getToken_def store_token_def p_save_def qserver_def handler_def finish_def qrequest_def
  token_request_def refresh_request_def auth_url_def prop_of_def assign_def
  js_gt_def js_minus_def js_times_def js_arith_def to_number_def root_def Let_def

text \<open>
  What \<^verbatim>\<open>_getAuth\<close> does with credentials that pass \<^verbatim>\<open>_validToken\<close>: it refreshes
  when more than the slop is left before the expiry, and returns the stored token when
  the slop or less is left.
\<close>

lemma getAuth_valid_credentials:
  assumes "state w = JObj kvs"
    and "\<not> is_nullish (prop_of kvs ''access_token'')"
    and "\<not> is_nullish (prop_of kvs ''refresh_token'')"
    and "prop_of kvs ''expires'' = JDate (Some e)"
    and "prop_of (options w) ''slop'' = JNum s"
    and "now_valid env < e"
  shows "p_getAuth lib env w =
           (if s < e - now_slop env then p_refresh lib env w
            else (Resolved (prop_of kvs ''access_token''), w))"
  using assms
  by (simp add: p_getAuth_def p_validToken_def beyond_slop_def js_gt_def js_minus_def
        js_arith_def to_number_def)

subsection \<open>Merging objects\<close>

text \<open>
  \<^verbatim>\<open>Object.assign\<close> on property lists: a key of a later source overrides the same key
  of an earlier one. Objects have distinct keys.
\<close>

lemma map_of_fold_update:
  "map_of (fold (\<lambda>(k, v). AList.update k v) ps al) = map_of al ++ map_of (rev ps)"
  by (induction ps arbitrary: al)
     (auto simp: update_conv' fun_eq_iff map_add_def split: option.splits)

lemma map_of_rev_distinct: "distinct (map fst xs) \<Longrightarrow> map_of (rev xs) = map_of xs"
proof (induction xs)
  case Nil
  show ?case by simp
next
  case (Cons x xs)
  then have "fst x \<notin> fst ` set xs" by simp
  then have "map_of xs (fst x) = None" by (simp add: map_of_eq_None_iff)
  then show ?case using Cons
    by (cases x) (auto simp: fun_eq_iff map_add_def split: option.splits)
qed

lemma prop_of_merge:
  assumes "distinct (map fst st)" "distinct (map fst kvs)"
  shows "prop_of (assign [] [JObj st, JObj kvs]) k =
           (if k \<in> fst ` set kvs then prop_of kvs k else prop_of st k)"
proof (cases "map_of kvs k")
  case None
  then have "k \<notin> fst ` set kvs" by (simp add: map_of_eq_None_iff)
  then show ?thesis
    using assms None
    by (simp add: prop_of_def assign_def map_of_fold_update map_of_rev_distinct map_add_def)
next
  case (Some v)
  then have "k \<in> fst ` set kvs" by (metis map_of_eq_None_iff option.distinct(1))
  then show ?thesis
    using assms Some
    by (simp add: prop_of_def assign_def map_of_fold_update map_of_rev_distinct map_add_def)
qed

lemma prop_of_update: "prop_of (AList.update k v al) k' = (if k' = k then v else prop_of al k')"
  by (simp add: prop_of_def update_conv')

lemma store_token_ok:
  assumes "state w = JObj st"
    and "prop_of kvs ''expires_in'' = JNum n"
    and "write_error env = None"
    and "st' = AList.update ''expires'' (JDate (time_clip (Some (now_token env + n * 1000))))
                 (assign [] [JObj st, JObj kvs])"
  shows "store_token lib env (JObj kvs) w =
     (Resolved (prop_of st' ''access_token''),
      w\<lparr>state := JObj st',
        files := (if is_nullish (prop_of (options w) ''config_file'') then files w
                  else AList.update (prop_of (options w) ''config_file'')
                         (Data (JSON_stringify lib (JObj st'))) (files w))\<rparr>)"
  using assms
  by (simp add: store_token_def Let_def js_times_def js_arith_def to_number_def p_save_def)

subsection \<open>Start-up and logout\<close>

lemma loadConfig_try_state [simp]: "loadConfig_try lib (w\<lparr>state := s0\<rparr>) = loadConfig_try lib w"
  by (simp add: loadConfig_try_def)

lemma loadHTML_state [simp]: "state (snd (p_loadHTML lib w)) = state w"
  by (simp add: p_loadHTML_def split: sum.splits)

lemma prop_of_defaults_over:
  assumes "k \<notin> fst ` set os"
  shows "prop_of (assign [] [JObj ds, JObj os]) k = prop_of (rev ds) k"
proof -
  have "map_of (rev os) k = None"
    using assms by (simp add: map_of_eq_None_iff)
  then show ?thesis
    by (simp add: prop_of_def assign_def map_of_fold_update map_add_def)
qed

lemma constructor_config_file:
  assumes "constructor lib fs (JObj os) = Inr w0"
    and "''config_file'' \<notin> fst ` set os"
    and "untildify lib (JStr ''~/.feedly'') = Inr pth"
  shows "prop_of (options w0) ''config_file'' = pth \<and> files w0 = fs"
proof -
  have d: "prop_of (assign [] [JObj (defaults lib), JObj os]) ''config_file'' = JStr ''~/.feedly''"
    using prop_of_defaults_over[OF assms(2), of "defaults lib"]
    by (simp add: defaults_def prop_of_def)
  show ?thesis
    using assms(1,3) d
    by (auto simp: constructor_def Let_def prop_of_update split: sum.splits if_splits)
qed

text \<open>
  What \<^verbatim>\<open>logout\<close> leaves does not depend on the reply to the revocation request.
\<close>

lemma logout_reply_irrelevant: "logout lib (env\<lparr>token_reply := r\<rparr>) w = logout lib env w"
  by (simp add: logout_def p_save_def Let_def split: sum.splits)

section \<open>The claims\<close>

text \<open>
  C1. The claim: credentials that expire within the slop are refreshed, and credentials
  that expire later are returned as stored, with no request. The code does the
  opposite. With a slop of 3600000 ms and the clock at 2000: a token expiring at 3000
  is returned as stored and nothing is sent; a token expiring at 7202000 is refreshed.
\<close>

theorem getAuth_slop_test_inverted:
  "p_getAuth lib0 (env0 2000 [] reply_ok) (world0 3000) = (Resolved (JStr ''A''), world0 3000) \<and>
   sends (trace (snd (p_getAuth lib0 (env0 2000 [] reply_ok) (world0 7202000)))) =
     [refresh_request (world0 7202000) ''http://cloud.feedly.com'' (JStr ''R'') ''refresh_token'']"
  by (simp add: example_defs run_defs)



text \<open>
  C3. A token exchange, by authorization code or by refresh token, whose request fails
  in transport or is answered with a status outside 200..299 rejects, and leaves the
  state and the files as they were.
\<close>

theorem token_exchange_failure:
  assumes "\<not> is_nullish (er (token_reply env)) \<or>
           \<not> (200 \<le> statusCode (token_reply env) \<and> statusCode (token_reply env) < 300)"
  shows "(\<exists>e. fst (p_getToken lib env c r w) = Rejected e) \<and>
         state (snd (p_getToken lib env c r w)) = state w \<and>
         files (snd (p_getToken lib env c r w)) = files w \<and>
         (\<exists>e. fst (p_refresh lib env w) = Rejected e) \<and>
         state (snd (p_refresh lib env w)) = state w \<and>
         files (snd (p_refresh lib env w)) = files w"
  using assms
  by (auto simp: p_getToken_def p_refresh_def qrequest_def Let_def split: sum.splits)

theorem token_exchange_failure_witness:
  "statusCode (token_reply (env0 2000 [] reply_503)) = 503 \<and>
   (\<exists>e. fst (p_getToken lib0 (env0 2000 [] reply_503) (JStr ''abc123'') (localhost 8080)
              (world0 1000)) = Rejected e) \<and>
   state (snd (p_getToken lib0 (env0 2000 [] reply_503) (JStr ''abc123'') (localhost 8080)
              (world0 1000))) = JObj (creds0 1000) \<and>
   files (snd (p_getToken lib0 (env0 2000 [] reply_503) (JStr ''abc123'') (localhost 8080)
              (world0 1000))) = [] \<and>
   er (token_reply (env0 2000 [] reply_failed)) = JErr ''ECONNREFUSED'' \<and>
   fst (p_refresh lib0 (env0 2000 [] reply_failed) (world0 1000)) =
     Rejected (Thrown (JErr ''ECONNREFUSED'')) \<and>
   state (snd (p_refresh lib0 (env0 2000 [] reply_failed) (world0 1000))) = JObj (creds0 1000) \<and>
   files (snd (p_refresh lib0 (env0 2000 [] reply_failed) (world0 1000))) = []"
proof -
  have s: "statusCode (token_reply (env0 2000 [] reply_503)) = 503"
    "er (token_reply (env0 2000 [] reply_failed)) = JErr ''ECONNREFUSED''"
    by (simp_all add: env0_def reply_503_def reply_failed_def)
  then have h: "\<not> is_nullish (er (token_reply (env0 2000 [] reply_503))) \<or>
      \<not> (200 \<le> statusCode (token_reply (env0 2000 [] reply_503)) \<and>
         statusCode (token_reply (env0 2000 [] reply_503)) < 300)"
    "\<not> is_nullish (er (token_reply (env0 2000 [] reply_failed))) \<or>
      \<not> (200 \<le> statusCode (token_reply (env0 2000 [] reply_failed)) \<and>
         statusCode (token_reply (env0 2000 [] reply_failed)) < 300)"
    by simp_all
  have w: "state (world0 1000) = JObj (creds0 1000)" "files (world0 1000) = []"
    by (simp_all add: world0_def)
  have f: "fst (p_refresh lib0 (env0 2000 [] reply_failed) (world0 1000)) =
     Rejected (Thrown (JErr ''ECONNREFUSED''))"
    by (simp add: example_defs p_refresh_def qrequest_def prop_of_def Let_def)
  show ?thesis
    using token_exchange_failure[OF h(1), of lib0 "JStr ''abc123''" "localhost 8080" "world0 1000"]
      token_exchange_failure[OF h(2), of lib0 "JStr ''abc123''" "localhost 8080" "world0 1000"]
      s w f
    by simp
qed



text \<open>
  C5. With a token file configured, \<^verbatim>\<open>_loadConfig\<close> always resolves. When the file is
  absent or unreadable, or its text is not JSON, the state becomes the empty object.
  When the text parses to an object, that object becomes the state, a number under
  \<^verbatim>\<open>expires\<close> replaced by the date of that many milliseconds.
\<close>

theorem loadConfig_never_fails:
  assumes "\<not> is_nullish (prop_of (options w) ''config_file'')"
    and "cf = prop_of (options w) ''config_file''"
  shows "fst (p_loadConfig lib w) = Resolved () \<and>
    (map_of (files w) cf = None \<or> map_of (files w) cf = Some Unreadable \<or>
     (\<exists>s. map_of (files w) cf = Some (Data s) \<and> JSON_parse lib s = None) \<longrightarrow>
       state (snd (p_loadConfig lib w)) = JObj []) \<and>
    (map_of (files w) cf = Some (Data s) \<and> JSON_parse lib s = Some (JObj kvs) \<and>
     prop_of kvs ''expires'' = JNum n \<longrightarrow>
       state (snd (p_loadConfig lib w)) =
         JObj (AList.update ''expires'' (JDate (time_clip (Some n))) kvs)) \<and>
    (map_of (files w) cf = Some (Data s) \<and> JSON_parse lib s = Some (JObj kvs) \<and>
     is_nullish (prop_of kvs ''expires'') \<longrightarrow>
       state (snd (p_loadConfig lib w)) = JObj kvs)"
  using assms
  by (auto simp: p_loadConfig_def loadConfig_try_def readFile_def split: sum.splits)

theorem loadConfig_never_fails_witness:
  "\<not> is_nullish (prop_of (options (world0 1000)) ''config_file'') \<and>
   map_of (files (world0 1000)) (JStr ''/home/u/.feedly'') = None \<and>
   fst (p_loadConfig lib0 (world0 1000)) = Resolved () \<and>
   state (snd (p_loadConfig lib0 (world0 1000))) = JObj [] \<and>
   map_of (files ((world0 1000)\<lparr>files := fs0\<rparr>)) (JStr ''/home/u/.feedly'') = Some (Data ''TOKENS'') \<and>
   JSON_parse lib0 ''TOKENS'' = Some (JObj [(''access_token'', JStr ''A''), (''expires'', JNum 1000)]) \<and>
   fst (p_loadConfig lib0 ((world0 1000)\<lparr>files := fs0\<rparr>)) = Resolved () \<and>
   state (snd (p_loadConfig lib0 ((world0 1000)\<lparr>files := fs0\<rparr>))) =
     JObj [(''access_token'', JStr ''A''), (''expires'', JDate (Some 1000))]"
proof -
  have h: "\<not> is_nullish (prop_of (options (world0 1000)) ''config_file'')"
    "JStr ''/home/u/.feedly'' = prop_of (options (world0 1000)) ''config_file''"
    "\<not> is_nullish (prop_of (options ((world0 1000)\<lparr>files := fs0\<rparr>)) ''config_file'')"
    "JStr ''/home/u/.feedly'' = prop_of (options ((world0 1000)\<lparr>files := fs0\<rparr>)) ''config_file''"
    by (simp_all add: world0_def opts0_def prop_of_def)
  have f: "map_of (files (world0 1000)) (JStr ''/home/u/.feedly'') = None"
    "map_of (files ((world0 1000)\<lparr>files := fs0\<rparr>)) (JStr ''/home/u/.feedly'') = Some (Data ''TOKENS'')"
    "JSON_parse lib0 ''TOKENS'' = Some (JObj [(''access_token'', JStr ''A''), (''expires'', JNum 1000)])"
    "prop_of [(''access_token'', JStr ''A''), (''expires'', JNum 1000)] ''expires'' = JNum 1000"
    by (simp_all add: world0_def fs0_def lib0_def prop_of_def)
  show ?thesis
    using loadConfig_never_fails[OF h(1) h(2), of lib0]
      loadConfig_never_fails[OF h(3) h(4), of lib0 "''TOKENS''"
        "[(''access_token'', JStr ''A''), (''expires'', JNum 1000)]" 1000]
      h(1) f
    by simp
qed

text \<open>
  C6. A token exchange, by authorization code or by refresh token, that is answered
  with status 200 and an object holding a number \<^verbatim>\<open>expires_in\<close>, and whose save succeeds:
  the new state holds the fields of the body over those of the old state, its
  \<^verbatim>\<open>expires\<close> is the date of now + expires_in * 1000 ms, the token file (when one is
  configured) holds the new state, and the access token of the new state is returned.
  After a refresh whose body names no refresh token, the old one is still there.
\<close>

theorem token_exchange_success:
  assumes "state w = JObj st" and "distinct (map fst st)"
    and "prop_of (options w) ''base'' = JStr b"
    and "is_nullish (er (token_reply env))" and "statusCode (token_reply env) = 200"
    and "res_body (token_reply env) = JObj kvs" and "distinct (map fst kvs)"
    and "prop_of kvs ''expires_in'' = JNum n"
    and "write_error env = None"
  shows "\<exists>st'.
           p_getToken lib env c r w =
             (Resolved (prop_of st' ''access_token''),
              w\<lparr>state := JObj st',
                files := (if is_nullish (prop_of (options w) ''config_file'') then files w
                          else AList.update (prop_of (options w) ''config_file'')
                                 (Data (JSON_stringify lib (JObj st'))) (files w)),
                trace := trace w @ [Send (token_request w b c r)]\<rparr>) \<and>
           p_refresh lib env w =
             (Resolved (prop_of st' ''access_token''),
              w\<lparr>state := JObj st',
                files := (if is_nullish (prop_of (options w) ''config_file'') then files w
                          else AList.update (prop_of (options w) ''config_file'')
                                 (Data (JSON_stringify lib (JObj st'))) (files w)),
                trace := trace w @
                  [Send (refresh_request w b (prop_of st ''refresh_token'') ''refresh_token'')]\<rparr>) \<and>
           prop_of st' ''expires'' = JDate (time_clip (Some (now_token env + n * 1000))) \<and>
           (\<forall>k. k \<noteq> ''expires'' \<longrightarrow>
                prop_of st' k = (if k \<in> fst ` set kvs then prop_of kvs k else prop_of st k)) \<and>
           (''refresh_token'' \<notin> fst ` set kvs \<longrightarrow>
                prop_of st' ''refresh_token'' = prop_of st ''refresh_token'')"
proof -
  define st' where "st' =
    AList.update ''expires'' (JDate (time_clip (Some (now_token env + n * 1000))))
      (assign [] [JObj st, JObj kvs])"
  have q: "qrequest rq (token_reply env) = Inr (JObj kvs)" for rq
    using assms by (simp add: qrequest_def)
  have s: "store_token lib env (JObj kvs) (w\<lparr>trace := t\<rparr>) =
     (Resolved (prop_of st' ''access_token''),
      w\<lparr>trace := t, state := JObj st',
        files := (if is_nullish (prop_of (options w) ''config_file'') then files w
                  else AList.update (prop_of (options w) ''config_file'')
                         (Data (JSON_stringify lib (JObj st'))) (files w))\<rparr>)" for t
    using store_token_ok[of "w\<lparr>trace := t\<rparr>" st kvs n env st' lib] assms st'_def by simp
  have g: "p_getToken lib env c r w =
             (Resolved (prop_of st' ''access_token''),
              w\<lparr>state := JObj st',
                files := (if is_nullish (prop_of (options w) ''config_file'') then files w
                          else AList.update (prop_of (options w) ''config_file'')
                                 (Data (JSON_stringify lib (JObj st'))) (files w)),
                trace := trace w @ [Send (token_request w b c r)]\<rparr>)"
    using assms by (simp add: p_getToken_def Let_def q s)
  have f: "p_refresh lib env w =
             (Resolved (prop_of st' ''access_token''),
              w\<lparr>state := JObj st',
                files := (if is_nullish (prop_of (options w) ''config_file'') then files w
                          else AList.update (prop_of (options w) ''config_file'')
                                 (Data (JSON_stringify lib (JObj st'))) (files w)),
                trace := trace w @
                  [Send (refresh_request w b (prop_of st ''refresh_token'') ''refresh_token'')]\<rparr>)"
    using assms by (simp add: p_refresh_def Let_def q s)
  have e: "prop_of st' ''expires'' = JDate (time_clip (Some (now_token env + n * 1000)))"
    by (simp add: st'_def prop_of_update)
  have m: "prop_of st' k = (if k \<in> fst ` set kvs then prop_of kvs k else prop_of st k)"
    if "k \<noteq> ''expires''" for k
    using that assms(2,7) by (simp add: st'_def prop_of_update prop_of_merge)
  have rt: "prop_of st' ''refresh_token'' = prop_of st ''refresh_token''"
    if "''refresh_token'' \<notin> fst ` set kvs"
    using that m[of "''refresh_token''"] by simp
  show ?thesis
    using g f e m rt by blast
qed

theorem token_exchange_success_witness:
  "state (world0 1000) = JObj (creds0 1000) \<and> distinct (map fst (creds0 1000)) \<and>
   prop_of (options (world0 1000)) ''base'' = JStr ''http://cloud.feedly.com'' \<and>
   is_nullish (er (token_reply (env0 2000 [] reply_ok))) \<and>
   statusCode (token_reply (env0 2000 [] reply_ok)) = 200 \<and>
   res_body (token_reply (env0 2000 [] reply_ok)) =
     JObj [(''access_token'', JStr ''new''), (''expires_in'', JNum 3600)] \<and>
   distinct (map fst [(''access_token'', JStr ''new''), (''expires_in'', JNum 3600)]) \<and>
   prop_of [(''access_token'', JStr ''new''), (''expires_in'', JNum 3600)] ''expires_in'' = JNum 3600 \<and>
   write_error (env0 2000 [] reply_ok) = None \<and>
   (\<exists>st'.
      p_getToken lib0 (env0 2000 [] reply_ok) (JStr ''abc123'') (localhost 8080) (world0 1000) =
        (Resolved (JStr ''new''),
         (world0 1000)\<lparr>state := JObj st',
           files := [(JStr ''/home/u/.feedly'', Data ''JSON'')],
           trace := [Send (token_request (world0 1000) ''http://cloud.feedly.com''
                             (JStr ''abc123'') (localhost 8080))]\<rparr>) \<and>
      p_refresh lib0 (env0 2000 [] reply_ok) (world0 1000) =
        (Resolved (JStr ''new''),
         (world0 1000)\<lparr>state := JObj st',
           files := [(JStr ''/home/u/.feedly'', Data ''JSON'')],
           trace := [Send (refresh_request (world0 1000) ''http://cloud.feedly.com''
                             (JStr ''R'') ''refresh_token'')]\<rparr>) \<and>
      prop_of st' ''expires'' = JDate (Some 3602000) \<and>
      prop_of st' ''access_token'' = JStr ''new'' \<and>
      prop_of st' ''refresh_token'' = JStr ''R'')"
proof -
  have h: "state (world0 1000) = JObj (creds0 1000)" "distinct (map fst (creds0 1000))"
    "prop_of (options (world0 1000)) ''base'' = JStr ''http://cloud.feedly.com''"
    "is_nullish (er (token_reply (env0 2000 [] reply_ok)))"
    "statusCode (token_reply (env0 2000 [] reply_ok)) = 200"
    "res_body (token_reply (env0 2000 [] reply_ok)) =
       JObj [(''access_token'', JStr ''new''), (''expires_in'', JNum 3600)]"
    "distinct (map fst [(''access_token'', JStr ''new''), (''expires_in'', JNum 3600)])"
    "prop_of [(''access_token'', JStr ''new''), (''expires_in'', JNum 3600)] ''expires_in'' = JNum 3600"
    "write_error (env0 2000 [] reply_ok) = None"
    by (simp_all add: example_defs prop_of_def)
  have v: "prop_of (options (world0 1000)) ''config_file'' = JStr ''/home/u/.feedly''"
    "files (world0 1000) = []" "trace (world0 1000) = []"
    "now_token (env0 2000 [] reply_ok) = 2000"
    "JSON_stringify lib0 = (\<lambda>v. ''JSON'')"
    "prop_of (creds0 1000) ''refresh_token'' = JStr ''R''"
    "prop_of [(''access_token'', JStr ''new''), (''expires_in'', JNum 3600)] ''access_token'' = JStr ''new''"
    by (simp_all add: example_defs prop_of_def)
  obtain st' where r: "p_getToken lib0 (env0 2000 [] reply_ok) (JStr ''abc123'') (localhost 8080) (world0 1000) =
             (Resolved (prop_of st' ''access_token''),
              (world0 1000)\<lparr>state := JObj st',
                files := (if is_nullish (prop_of (options (world0 1000)) ''config_file'') then files (world0 1000)
                          else AList.update (prop_of (options (world0 1000)) ''config_file'')
                                 (Data (JSON_stringify lib0 (JObj st'))) (files (world0 1000))),
                trace := trace (world0 1000) @ [Send (token_request (world0 1000) ''http://cloud.feedly.com'' (JStr ''abc123'') (localhost 8080))]\<rparr>)"
     "p_refresh lib0 (env0 2000 [] reply_ok) (world0 1000) =
             (Resolved (prop_of st' ''access_token''),
              (world0 1000)\<lparr>state := JObj st',
                files := (if is_nullish (prop_of (options (world0 1000)) ''config_file'') then files (world0 1000)
                          else AList.update (prop_of (options (world0 1000)) ''config_file'')
                                 (Data (JSON_stringify lib0 (JObj st'))) (files (world0 1000))),
                trace := trace (world0 1000) @
                  [Send (refresh_request (world0 1000) ''http://cloud.feedly.com'' (prop_of (creds0 1000) ''refresh_token'') ''refresh_token'')]\<rparr>)"
     "prop_of st' ''expires'' = JDate (time_clip (Some (now_token (env0 2000 [] reply_ok) + 3600 * 1000)))"
     "\<forall>k. k \<noteq> ''expires'' \<longrightarrow>
                prop_of st' k = (if k \<in> fst ` set [(''access_token'', JStr ''new''), (''expires_in'', JNum 3600)] then prop_of [(''access_token'', JStr ''new''), (''expires_in'', JNum 3600)] k else prop_of (creds0 1000) k)"
    using token_exchange_success[OF h, of lib0 "JStr ''abc123''" "localhost 8080"] by blast
  have a: "prop_of st' ''access_token'' = JStr ''new''"
    using r(4) v by simp
  have b: "prop_of st' ''refresh_token'' = JStr ''R''"
    using r(4) v by simp
  have c: "prop_of st' ''expires'' = JDate (Some 3602000)"
    using r(3) v by simp
  show ?thesis
    using h r(1,2) a b c v by auto
qed

text \<open>
  C7. When the redirect that reaches the callback server carries an \<^verbatim>\<open>error\<close>
  parameter, \<^verbatim>\<open>_auth\<close> rejects with that value, sends no request, and leaves the state
  and the files as they were.
\<close>

theorem auth_error_parameter:
  assumes "prop_of (options w) ''base'' = JStr b"
    and "bound env = Some p"
    and "find root (requests env) = Some rq"
    and "get_prop (query rq) ''error'' = Inr err"
    and "\<not> is_nullish err"
  shows "fst (p_auth lib env w) = Rejected (Thrown err) \<and>
         state (snd (p_auth lib env w)) = state w \<and>
         files (snd (p_auth lib env w)) = files w \<and>
         sends (trace (snd (p_auth lib env w))) = sends (trace w)"
proof -
  obtain fx where fx: "qserver (prop_of (options w) ''port'') (prop_of (options w) ''html_text'')
        (\<lambda>cbu. [Open (auth_url w b cbu)]) env =
           (Resolved (query rq, req_body rq),
            Listen (prop_of (options w) ''port'') # [Open (auth_url w b (localhost p))] @ fx)"
        "sends fx = []"
    using qserver_resolved[OF assms(2) assms(3)] by blast
  show ?thesis
    using assms fx by (simp add: p_auth_def Let_def)
qed

theorem auth_error_parameter_witness:
  "prop_of (options (world0 1000)) ''base'' = JStr ''http://cloud.feedly.com'' \<and>
   bound (env0 2000 [stray, redirect_denied] reply_ok) = Some 8080 \<and>
   find root (requests (env0 2000 [stray, redirect_denied] reply_ok)) = Some redirect_denied \<and>
   get_prop (query redirect_denied) ''error'' = Inr (JStr ''access_denied'') \<and>
   fst (p_auth lib0 (env0 2000 [stray, redirect_denied] reply_ok) (world0 1000)) =
     Rejected (Thrown (JStr ''access_denied'')) \<and>
   state (snd (p_auth lib0 (env0 2000 [stray, redirect_denied] reply_ok) (world0 1000))) =
     JObj (creds0 1000) \<and>
   files (snd (p_auth lib0 (env0 2000 [stray, redirect_denied] reply_ok) (world0 1000))) = [] \<and>
   sends (trace (snd (p_auth lib0 (env0 2000 [stray, redirect_denied] reply_ok) (world0 1000)))) = []"
proof -
  have h: "prop_of (options (world0 1000)) ''base'' = JStr ''http://cloud.feedly.com''"
    "bound (env0 2000 [stray, redirect_denied] reply_ok) = Some 8080"
    "find root (requests (env0 2000 [stray, redirect_denied] reply_ok)) = Some redirect_denied"
    "get_prop (query redirect_denied) ''error'' = Inr (JStr ''access_denied'')"
    "\<not> is_nullish (JStr ''access_denied'')"
    by (simp_all add: world0_def opts0_def prop_of_def env0_def root_def stray_def
          redirect_denied_def)
  have w: "state (world0 1000) = JObj (creds0 1000)" "files (world0 1000) = []"
    "trace (world0 1000) = []"
    by (simp_all add: world0_def)
  show ?thesis
    using auth_error_parameter[OF h, of lib0] h w by simp
qed

text \<open>
  C8. The claim: \<^verbatim>\<open>logout\<close> removes the tokens and the provider's fields, persists the
  cleared state whether or not the revocation succeeds, and merges in what the
  revocation returned. The code clears and persists, and merges nothing: the source of
  the merge is the promise, which has no properties of its own. Here the revocation is
  answered 200 with the body \<open>{revoked: true}\<close>, and the state left is \<open>{id: user1}\<close>.
\<close>

theorem logout_merges_nothing:
  "res_body (token_reply (env0 2000 [] reply_revoked)) = JObj [(''revoked'', JBool True)] \<and>
   logout lib0 (env0 2000 [] reply_revoked) (world0 5000) =
     (Resolved (),
      (world0 5000)\<lparr>state := JObj [(''id'', JStr ''user1'')],
        files := [(JStr ''/home/u/.feedly'', Data ''JSON'')],
        trace := [Send (refresh_request (world0 5000) ''http://cloud.feedly.com'' (JStr ''R'')
                          ''revoke_token'')]\<rparr>)"
  by (simp add: example_defs reply_revoked_def logout_def p_save_def refresh_request_def
        prop_of_def assign_def Let_def)

text \<open>
  C9. With a token file configured, the state after start-up is what the file gives
  (the empty object when reading or parsing fails), whatever the state was before; with
  no token file configured, the state is kept. A client built with tokens and no
  \<^verbatim>\<open>config_file\<close> option, where the default path has no file, starts with the empty
  state.
\<close>

theorem startup_load_replaces_state:
  "(\<not> is_nullish (prop_of (options w) ''config_file'') \<longrightarrow>
      state (snd (p_loadConfig lib (w\<lparr>state := s0\<rparr>))) =
      state (snd (p_loadConfig lib (w\<lparr>state := s1\<rparr>))) \<and>
      state (snd (ready lib (w\<lparr>state := s0\<rparr>))) =
        (case loadConfig_try lib w of Inl e \<Rightarrow> JObj [] | Inr st \<Rightarrow> st)) \<and>
   (is_nullish (prop_of (options w) ''config_file'') \<longrightarrow>
      state (snd (ready lib w)) = state w) \<and>
   (constructor lib fs (JObj os) = Inr w0 \<and> ''config_file'' \<notin> fst ` set os \<and>
    untildify lib (JStr ''~/.feedly'') = Inr pth \<and> \<not> is_nullish pth \<and> map_of fs pth = None \<longrightarrow>
      new_Feedly lib fs (JObj os) = Inr (snd (ready lib w0)) \<and>
      state (snd (ready lib w0)) = JObj [])"
proof -
  have r: "state (snd (ready lib v)) = state (snd (p_loadConfig lib v))" for v
  proof -
    obtain r1 w1 where 1: "p_loadConfig lib v = (r1, w1)"
      by (cases "p_loadConfig lib v")
    obtain r2 w2 where 2: "p_loadHTML lib w1 = (r2, w2)"
      by (cases "p_loadHTML lib w1")
    have "state w2 = state w1"
      using loadHTML_state[of lib w1] 2 by simp
    then show ?thesis
      using 1 2 by (simp add: ready_def)
  qed
  have a: "state (snd (p_loadConfig lib (w\<lparr>state := s\<rparr>))) =
        (case loadConfig_try lib w of Inl e \<Rightarrow> JObj [] | Inr st \<Rightarrow> st)"
    if "\<not> is_nullish (prop_of (options w) ''config_file'')" for s
    using that by (simp add: p_loadConfig_def split: sum.splits)
  have b: "state (snd (p_loadConfig lib w)) = state w"
    if "is_nullish (prop_of (options w) ''config_file'')"
    using that by (simp add: p_loadConfig_def)
  have c: "new_Feedly lib fs (JObj os) = Inr (snd (ready lib w0)) \<and>
      state (snd (ready lib w0)) = JObj []"
    if h: "constructor lib fs (JObj os) = Inr w0" "''config_file'' \<notin> fst ` set os"
      "untildify lib (JStr ''~/.feedly'') = Inr pth" "\<not> is_nullish pth" "map_of fs pth = None"
  proof -
    have o: "prop_of (options w0) ''config_file'' = pth" "files w0 = fs"
      using constructor_config_file[OF h(1) h(2) h(3)] by simp_all
    have "loadConfig_try lib w0 = Inl (ReadError pth)"
      using o h(5) by (simp add: loadConfig_try_def readFile_def)
    then have "state (snd (p_loadConfig lib w0)) = JObj []"
      using o h(4) by (simp add: p_loadConfig_def)
    then show ?thesis
      using h(1) by (simp add: new_Feedly_def r)
  qed
  show ?thesis
    using a b c r by simp
qed

theorem startup_load_replaces_state_witness:
  "\<not> is_nullish (prop_of (options (world0 1000)) ''config_file'') \<and>
   state (snd (ready lib0 (world0 1000))) = JObj [] \<and>
   state (snd (ready lib0 ((world0 1000)\<lparr>files := fs0\<rparr>))) =
     JObj [(''access_token'', JStr ''A''), (''expires'', JDate (Some 1000))] \<and>
   is_nullish (prop_of (options (world_null 1000)) ''config_file'') \<and>
   state (snd (ready lib0 (world_null 1000))) = JObj (creds0 1000) \<and>
   untildify lib0 (JStr ''~/.feedly'') = Inr (JStr ''~/.feedly'') \<and>
   ''config_file'' \<notin> fst ` set tokens0 \<and>
   (\<exists>w0. constructor lib0 [] (JObj tokens0) = Inr w0 \<and>
         state w0 = JObj [(''refresh_token'', JStr ''R''), (''access_token'', JStr ''A''),
                          (''expires'', JNum 9000000)] \<and>
         new_Feedly lib0 [] (JObj tokens0) = Inr (snd (ready lib0 w0)) \<and>
         state (snd (ready lib0 w0)) = JObj [])"
proof -
  have h: "\<not> is_nullish (prop_of (options (world0 1000)) ''config_file'')"
    "is_nullish (prop_of (options (world_null 1000)) ''config_file'')"
    "untildify lib0 (JStr ''~/.feedly'') = Inr (JStr ''~/.feedly'')"
    "''config_file'' \<notin> fst ` set tokens0"
    "\<not> is_nullish (JStr ''~/.feedly'')" "map_of [] (JStr ''~/.feedly'') = (None :: fsfile option)"
    "state (world_null 1000) = JObj (creds0 1000)"
    by (simp_all add: world0_def world_null_def opts0_def prop_of_def lib0_def tokens0_def)
  have t: "loadConfig_try lib0 (world0 1000) = Inl (ReadError (JStr ''/home/u/.feedly''))"
    "loadConfig_try lib0 ((world0 1000)\<lparr>files := fs0\<rparr>) =
       Inr (JObj [(''access_token'', JStr ''A''), (''expires'', JDate (Some 1000))])"
    by (simp_all add: loadConfig_try_def readFile_def world0_def opts0_def prop_of_def fs0_def
          lib0_def to_number_def)
  have s: "(world0 1000)\<lparr>state := JObj (creds0 1000)\<rparr> = world0 1000"
    "(world0 1000)\<lparr>files := fs0, state := JObj (creds0 1000)\<rparr> = (world0 1000)\<lparr>files := fs0\<rparr>"
    by (simp_all add: world0_def)
  obtain w0 where c: "constructor lib0 [] (JObj tokens0) = Inr w0"
    "state w0 = JObj [(''refresh_token'', JStr ''R''), (''access_token'', JStr ''A''),
                          (''expires'', JNum 9000000)]"
    by (simp add: constructor_def Let_def lib0_def tokens0_def defaults_def assign_def prop_of_def)
  have a: "state (snd (ready lib0 (world0 1000))) = JObj []"
    using startup_load_replaces_state[of "world0 1000" lib0 "JObj (creds0 1000)"] h t s by simp
  have b: "state (snd (ready lib0 ((world0 1000)\<lparr>files := fs0\<rparr>))) =
     JObj [(''access_token'', JStr ''A''), (''expires'', JDate (Some 1000))]"
    using startup_load_replaces_state[of "(world0 1000)\<lparr>files := fs0\<rparr>" lib0 "JObj (creds0 1000)"]
      h t s by simp
  have n: "state (snd (ready lib0 (world_null 1000))) = JObj (creds0 1000)"
    using startup_load_replaces_state[of "world_null 1000" lib0] h by simp
  have d: "new_Feedly lib0 [] (JObj tokens0) = Inr (snd (ready lib0 w0)) \<and>
      state (snd (ready lib0 w0)) = JObj []"
    using startup_load_replaces_state[of "world0 1000" lib0 _ _ "[]" tokens0 w0 "JStr ''~/.feedly''"]
      c(1) h by simp
  show ?thesis
    using h a b n c d by blast
qed

text \<open>
  C10. Where the host has no global \<^verbatim>\<open>f\<close>, \<^verbatim>\<open>markEntrySaved\<close> and
  \<^verbatim>\<open>markEntryUnsaved\<close> throw a \<^verbatim>\<open>ReferenceError\<close> for every argument, and no effect
  is added to the trace.
\<close>

theorem markEntry_reference_error:
  assumes "map_of globals ''f'' = None"
  shows "markEntrySaved globals ids cb w = (Inl (ReferenceError ''f is not defined''), w) \<and>
         markEntryUnsaved globals ids cb w = (Inl (ReferenceError ''f is not defined''), w)"
  using assms
  by (simp add: markEntrySaved_def markEntryUnsaved_def mark_entries_def module_scope_def Let_def)

theorem markEntry_reference_error_witness:
  "map_of globals0 ''f'' = None \<and>
   markEntrySaved globals0 (JStr ''entry1'') JUndefined (world0 5000) =
     (Inl (ReferenceError ''f is not defined''), world0 5000) \<and>
   markEntryUnsaved globals0 (JArr [JStr ''entry1'', JStr ''entry2'']) JUndefined (world0 5000) =
     (Inl (ReferenceError ''f is not defined''), world0 5000)"
proof -
  have h: "map_of globals0 ''f'' = None"
    by (simp add: globals0_def)
  show ?thesis
    using markEntry_reference_error[OF h, of "JStr ''entry1''" JUndefined "world0 5000"]
      markEntry_reference_error[OF h, of "JArr [JStr ''entry1'', JStr ''entry2'']" JUndefined
        "world0 5000"] h
    by simp
qed

end
